theory Spec2Isabelle
  imports Complex_Main
begin

section \<open>Constants (utils/Constants.ts)\<close>

text \<open>
  \<^verbatim>\<open>DimensionType = typeof DIMENSIONS.LUMINA | typeof DIMENSIONS.UMBRA\<close>: a type of
  exactly two values.
\<close>

datatype DimensionType = LUMINA | UMBRA

definition TILES_X :: nat where
  "TILES_X = 30"

definition TILES_Y :: nat where
  "TILES_Y = 20"

definition SHIFT_DURATION_MS :: nat where
  "SHIFT_DURATION_MS = 200"

definition GHOST_ALPHA :: real where
  "GHOST_ALPHA = 0.2"

definition LUMINA_TINT :: nat where
  "LUMINA_TINT = 0xffcc44"

definition UMBRA_TINT :: nat where
  "UMBRA_TINT = 0x6644cc"

section \<open>Tiles and tilemap layers\<close>

text \<open>
  The part of the engine's tile and layer objects that the game reads and writes: a tile
  has its tileset index (\<open>-1\<close> for a blank cell), a tint colour and a collision flag; a
  layer has its rows of tiles, an alpha and a draw depth. Alpha values are only stored and
  compared, never computed with, so they are kept as real constants.
\<close>

record Tile =
  index :: int
  tint :: nat
  collides :: bool

record TilemapLayer =
  tiles :: "Tile list list"
  alpha :: real
  depth :: int

text \<open>
  The engine calls of the source, with the meaning the source's comments give them:
  \<open>forEachTile\<close> visits every tile of the layer; \<open>setCollisionByExclusion\<close> means
  "collide with every tile except the ones in this array" and leaves the excluded tiles
  as they are; \<open>tile.setCollision(false)\<close> clears the flag of one tile.
\<close>

definition setAlpha :: "real \<Rightarrow> TilemapLayer \<Rightarrow> TilemapLayer" where
  "setAlpha a L = L\<lparr>alpha := a\<rparr>"

definition setDepth :: "int \<Rightarrow> TilemapLayer \<Rightarrow> TilemapLayer" where
  "setDepth z L = L\<lparr>depth := z\<rparr>"

definition forEachTile :: "(Tile \<Rightarrow> Tile) \<Rightarrow> TilemapLayer \<Rightarrow> TilemapLayer" where
  "forEachTile f L = L\<lparr>tiles := map (map f) (tiles L)\<rparr>"

definition setCollision :: "bool \<Rightarrow> Tile \<Rightarrow> Tile" where
  "setCollision b t = t\<lparr>collides := b\<rparr>"

definition setCollisionByExclusion :: "int list \<Rightarrow> TilemapLayer \<Rightarrow> TilemapLayer" where
  "setCollisionByExclusion indexes L =
     forEachTile (\<lambda>t. if index t \<in> set indexes then t else setCollision True t) L"

definition allTiles :: "TilemapLayer \<Rightarrow> Tile list" where
  "allTiles L = concat (tiles L)"

text \<open>
  A cell is occupied when the level grid held a positive tile id there:
  \<open>createTilemap\<close> puts a tile only \<^verbatim>\<open>if (tileIndex > 0)\<close>.
\<close>

definition occupied :: "Tile \<Rightarrow> bool" where
  "occupied t = (index t > 0)"

section \<open>DimensionManager (systems/DimensionManager.ts)\<close>

text \<open>
  The private fields of the class. The two layer fields hold two different layer objects
  (the scene makes them with two \<open>createBlankLayer\<close> calls), so each is a value of its own.
\<close>

record DimensionManager =
  current :: DimensionType
  luminaLayer :: TilemapLayer
  umbraLayer :: TilemapLayer
  isShifting :: bool

definition getCurrent :: "DimensionManager \<Rightarrow> DimensionType" where
  "getCurrent d = current d"

definition getActiveLayer :: "DimensionManager \<Rightarrow> TilemapLayer" where
  "getActiveLayer d = (if current d = LUMINA then luminaLayer d else umbraLayer d)"

definition getInactiveLayer :: "DimensionManager \<Rightarrow> TilemapLayer" where
  "getInactiveLayer d = (if current d = LUMINA then umbraLayer d else luminaLayer d)"

definition getIsShifting :: "DimensionManager \<Rightarrow> bool" where
  "getIsShifting d = isShifting d"

text \<open>
  \<open>applyDimensionState\<close>: the calls on the active layer and on the inactive layer, in the
  order of the source (innermost call first).
\<close>

definition activateLayer :: "TilemapLayer \<Rightarrow> TilemapLayer" where
  "activateLayer L =
     setDepth 1
       (setCollisionByExclusion [0, -1]
         (forEachTile (\<lambda>t. t\<lparr>tint := 0xffffff\<rparr>)
           (setAlpha 1 L)))"

definition ghostLayer :: "nat \<Rightarrow> TilemapLayer \<Rightarrow> TilemapLayer" where
  "ghostLayer inactiveTint L =
     setDepth 0
       (forEachTile (setCollision False)
         (forEachTile (\<lambda>t. t\<lparr>tint := inactiveTint\<rparr>)
           (setAlpha GHOST_ALPHA L)))"

definition applyDimensionState :: "DimensionManager \<Rightarrow> DimensionManager" where
  "applyDimensionState d =
     (let isLumina = (current d = LUMINA);
          inactiveTint = (if isLumina then UMBRA_TINT else LUMINA_TINT)
      in if isLumina
         then d\<lparr>luminaLayer := activateLayer (luminaLayer d),
                umbraLayer := ghostLayer inactiveTint (umbraLayer d)\<rparr>
         else d\<lparr>umbraLayer := activateLayer (umbraLayer d),
                luminaLayer := ghostLayer inactiveTint (luminaLayer d)\<rparr>)"

section \<open>The manager, its callback and the scene clock\<close>

text \<open>
  The manager together with what \<open>shift\<close> touches outside its private fields: the
  callback given to \<open>init\<close> (a field of the class, kept beside the record of the other
  fields so that its type can mention them), the scene clock with the due times of the
  pending \<open>delayedCall\<close> events of the manager (each of them runs
  \<^verbatim>\<open>this.isShifting = false\<close>), and the state \<open>world\<close> that the callback works on. The
  callback reads the manager through its getters and does not write its private fields.
\<close>

record 'w Game =
  dm :: DimensionManager
  onShiftCallback :: "(DimensionManager \<Rightarrow> 'w \<Rightarrow> 'w) option"
  now :: nat
  timers :: "nat list"
  world :: 'w

text \<open>
  The constructor: \<open>current\<close> starts as \<open>LUMINA\<close> and \<open>isShifting\<close> as \<open>false\<close>; the layer
  fields are unassigned until \<open>init\<close> (an empty layer stands for them). \<open>t0\<close> is the time of
  the scene clock when the manager is made.
\<close>

definition unassignedLayer :: TilemapLayer where
  "unassignedLayer = \<lparr>tiles = [], alpha = 1, depth = 0\<rparr>"

definition newDimensionManager :: "nat \<Rightarrow> 'w \<Rightarrow> 'w Game" where
  "newDimensionManager t0 w =
     \<lparr>dm = \<lparr>current = LUMINA, luminaLayer = unassignedLayer, umbraLayer = unassignedLayer,
             isShifting = False\<rparr>,
      onShiftCallback = None, now = t0, timers = [], world = w\<rparr>"

definition init ::
  "TilemapLayer \<Rightarrow> TilemapLayer \<Rightarrow> (DimensionManager \<Rightarrow> 'w \<Rightarrow> 'w) \<Rightarrow> 'w Game \<Rightarrow> 'w Game" where
  "init lumina_layer umbra_layer cb g =
     (let g1 = g\<lparr>dm := (dm g)\<lparr>luminaLayer := lumina_layer, umbraLayer := umbra_layer\<rparr>,
                  onShiftCallback := Some cb\<rparr>
      in g1\<lparr>dm := applyDimensionState (dm g1)\<rparr>)"

definition delayedCall :: "nat \<Rightarrow> 'w Game \<Rightarrow> 'w Game" where
  "delayedCall delay g = g\<lparr>timers := timers g @ [now g + delay]\<rparr>"

definition shift :: "'w Game \<Rightarrow> 'w Game" where
  "shift g =
     (if isShifting (dm g) then g
      else
        let g1 = g\<lparr>dm := (dm g)\<lparr>isShifting := True\<rparr>\<rparr>;
            g2 = g1\<lparr>dm := (dm g1)\<lparr>current :=
                    (if current (dm g1) = LUMINA then UMBRA else LUMINA)\<rparr>\<rparr>;
            g3 = g2\<lparr>dm := applyDimensionState (dm g2)\<rparr>;
            g4 = (case onShiftCallback g3 of
                    Some cb \<Rightarrow> g3\<lparr>world := cb (dm g3) (world g3)\<rparr>
                  | None \<Rightarrow> g3)
        in delayedCall SHIFT_DURATION_MS g4)"

text \<open>
  The manager state that an accepted \<open>shift\<close> has reached when it calls the callback: the
  lock taken, the dimension flipped, the state applied.
\<close>

definition toggled :: "DimensionManager \<Rightarrow> DimensionManager" where
  "toggled d = applyDimensionState
     (d\<lparr>isShifting := True, current := (if current d = LUMINA then UMBRA else LUMINA)\<rparr>)"

text \<open>
  One update of the scene clock by \<open>delta\<close> milliseconds: every pending event whose delay
  has elapsed fires (clearing \<open>isShifting\<close>) and is removed.
\<close>

definition clockUpdate :: "nat \<Rightarrow> 'w Game \<Rightarrow> 'w Game" where
  "clockUpdate delta g =
     (let t = now g + delta;
          due = filter (\<lambda>u. u \<le> t) (timers g);
          g1 = g\<lparr>now := t, timers := filter (\<lambda>u. \<not> u \<le> t) (timers g)\<rparr>
      in fold (\<lambda>_ h. h\<lparr>dm := (dm h)\<lparr>isShifting := False\<rparr>\<rparr>) due g1)"

text \<open>
  What can happen to a manager during a level: the player asks for a shift, the clock
  advances, the state application runs again.
\<close>

datatype Event = ShiftPressed | Update nat | Apply

fun step :: "Event \<Rightarrow> 'w Game \<Rightarrow> 'w Game" where
  "step ShiftPressed g = shift g"
| "step (Update delta) g = clockUpdate delta g"
| "step Apply g = g\<lparr>dm := applyDimensionState (dm g)\<rparr>"

definition run :: "Event list \<Rightarrow> 'w Game \<Rightarrow> 'w Game" where
  "run evs g = fold step evs g"

fun elapsed :: "Event list \<Rightarrow> nat" where
  "elapsed [] = 0"
| "elapsed (Update delta # evs) = delta + elapsed evs"
| "elapsed (_ # evs) = elapsed evs"

section \<open>Enemies (entities/Enemy.ts)\<close>

text \<open>
  The fields of an enemy that the dimension logic reads and writes; \<open>sprite_alpha\<close>,
  \<open>sprite_tint\<close> and \<open>body_enable\<close> are the sprite's alpha, its tint (\<open>0xffffff\<close> after
  \<open>clearTint\<close>) and \<open>body.enable\<close>.
\<close>

record Enemy =
  dimension :: DimensionType
  damage :: nat
  isActive :: bool
  sprite_alpha :: real
  sprite_tint :: nat
  body_enable :: bool

definition newEnemy :: "DimensionType \<Rightarrow> Enemy" where
  "newEnemy dimn =
     \<lparr>dimension = dimn, damage = 1, isActive = True, sprite_alpha = 1,
      sprite_tint = 0xffffff, body_enable = True\<rparr>"

definition newPatrolEnemy :: Enemy where
  "newPatrolEnemy = newEnemy LUMINA"

definition newChaseEnemy :: Enemy where
  "newChaseEnemy = newEnemy UMBRA"

definition isTinted :: "Enemy \<Rightarrow> bool" where
  "isTinted e = (sprite_tint e \<noteq> 0xffffff)"

definition onDimensionShift :: "DimensionType \<Rightarrow> Enemy \<Rightarrow> Enemy" where
  "onDimensionShift currentDimension e =
     (let e1 = e\<lparr>isActive := (currentDimension = dimension e)\<rparr>
      in if isActive e1
         then e1\<lparr>sprite_alpha := 1, sprite_tint := 0xffffff, body_enable := True\<rparr>
         else e1\<lparr>sprite_alpha := GHOST_ALPHA,
                 sprite_tint := (if dimension e1 = LUMINA then LUMINA_TINT else UMBRA_TINT),
                 body_enable := False\<rparr>)"

definition canDamage :: "Enemy \<Rightarrow> bool" where
  "canDamage e = isActive e"

definition getDamage :: "Enemy \<Rightarrow> nat" where
  "getDamage e = damage e"

definition getDimension :: "Enemy \<Rightarrow> DimensionType" where
  "getDimension e = dimension e"

section \<open>GameScene (scenes/GameScene.ts)\<close>

text \<open>
  The level data the scene consumes: two grids of tile ids and the optional list of enemy
  spawns, of which only the type matters here.
\<close>

record EnemySpawn =
  spawn_type :: string

record LevelDefinition =
  lumina :: "int list list"
  umbra :: "int list list"
  level_enemies :: "EnemySpawn list option"

text \<open>
  \<open>createBlankLayer\<close> fills the layer with blank tiles (index \<open>-1\<close>, no collision, neutral
  tint); \<open>putTileAt\<close> writes the index of the tile at a cell inside the layer and does
  nothing outside it. No collision index has been set on the layer when the scene fills
  it, so the tile written stays non-colliding.
\<close>

definition createBlankLayer :: "nat \<Rightarrow> nat \<Rightarrow> TilemapLayer" where
  "createBlankLayer w h =
     \<lparr>tiles = replicate h (replicate w \<lparr>index = -1, tint = 0xffffff, collides = False\<rparr>),
      alpha = 1, depth = 0\<rparr>"

definition putTileAt :: "int \<Rightarrow> nat \<Rightarrow> nat \<Rightarrow> TilemapLayer \<Rightarrow> TilemapLayer" where
  "putTileAt tileIndex tileX tileY L =
     (if tileY < length (tiles L) \<and> tileX < length (tiles L ! tileY)
      then L\<lparr>tiles := (tiles L)[tileY :=
               (tiles L ! tileY)[tileX :=
                 (tiles L ! tileY ! tileX)\<lparr>index := tileIndex, collides := False\<rparr>]]\<rparr>
      else L)"

definition fillRow :: "nat \<Rightarrow> int list \<Rightarrow> TilemapLayer \<Rightarrow> TilemapLayer" where
  "fillRow row cells L =
     fold (\<lambda>col K. let tileIndex = cells ! col
                    in if tileIndex > 0 then putTileAt tileIndex col row K else K)
       [0..<length cells] L"

definition fillLayer :: "int list list \<Rightarrow> TilemapLayer \<Rightarrow> TilemapLayer" where
  "fillLayer grid L = fold (\<lambda>row K. fillRow row (grid ! row) K) [0..<length grid] L"

definition createTilemap :: "LevelDefinition \<Rightarrow> TilemapLayer \<times> TilemapLayer" where
  "createTilemap level =
     (fillLayer (lumina level) (createBlankLayer TILES_X TILES_Y),
      fillLayer (umbra level) (createBlankLayer TILES_X TILES_Y))"

text \<open>
  The scene state that the shift callback works on: the enemy list and the layer the
  player's collider is bound to, named by its dimension. The camera, particle, audio and
  background calls of the callback touch neither and are left out.
\<close>

record GameScene =
  enemies :: "Enemy list"
  activeCollider :: "DimensionType option"

definition rebuildCollider :: "DimensionManager \<Rightarrow> GameScene \<Rightarrow> GameScene" where
  "rebuildCollider d s = s\<lparr>activeCollider := Some (getCurrent d)\<rparr>"

definition GameScene_onDimensionShift :: "DimensionManager \<Rightarrow> GameScene \<Rightarrow> GameScene" where
  "GameScene_onDimensionShift d s =
     (let s1 = rebuildCollider d s;
          dimn = getCurrent d
      in s1\<lparr>enemies := map (onDimensionShift dimn) (enemies s1)\<rparr>)"

definition spawnEnemies :: "LevelDefinition \<Rightarrow> DimensionManager \<Rightarrow> GameScene \<Rightarrow> GameScene" where
  "spawnEnemies level d s =
     (case level_enemies level of
        None \<Rightarrow> s
      | Some spawns \<Rightarrow>
          let s1 = fold (\<lambda>spawn k. k\<lparr>enemies := enemies k @
                          [if spawn_type spawn = ''patrol'' then newPatrolEnemy
                           else newChaseEnemy]\<rparr>) spawns s;
              dimn = getCurrent d
          in s1\<lparr>enemies := map (onDimensionShift dimn) (enemies s1)\<rparr>)"

text \<open>
  \<open>create\<close>: build the two layers, make and initialise the manager with the scene's
  callback, bind the player's collider, spawn the enemies.
\<close>

definition create :: "LevelDefinition \<Rightarrow> nat \<Rightarrow> GameScene Game" where
  "create level t0 =
     (let (lumina_layer, umbra_layer) = createTilemap level;
          g = init lumina_layer umbra_layer GameScene_onDimensionShift
                (newDimensionManager t0 \<lparr>enemies = [], activeCollider = None\<rparr>);
          g1 = g\<lparr>world := rebuildCollider (dm g) (world g)\<rparr>
      in g1\<lparr>world := spawnEnemies level (dm g1) (world g1)\<rparr>)"

text \<open>
  The overlap handler registered by \<open>rebuildEnemyCollider\<close>; \<open>takeDamage\<close> is the player's
  method, taken as a parameter.
\<close>

definition enemyOverlap :: "(nat \<Rightarrow> 'p \<Rightarrow> 'p) \<Rightarrow> Enemy \<Rightarrow> 'p \<Rightarrow> 'p" where
  "enemyOverlap takeDamage enemy player =
     (if canDamage enemy then takeDamage (getDamage enemy) player else player)"

section \<open>What the layers of a level look like\<close>

text \<open>
  A cell of a layer built from a grid is either blank and non-colliding, or holds the
  positive tile id that the grid has at its place; a layer built from a grid has
  \<open>TILES_Y\<close> rows of \<open>TILES_X\<close> such cells.
\<close>

definition cellOK :: "int list list \<Rightarrow> nat \<Rightarrow> nat \<Rightarrow> Tile \<Rightarrow> bool" where
  "cellOK grid r c t =
     ((index t = -1 \<and> \<not> collides t)
      \<or> (r < length grid \<and> c < length (grid ! r) \<and> index t = grid ! r ! c \<and> 0 < grid ! r ! c))"

definition layerOK :: "int list list \<Rightarrow> TilemapLayer \<Rightarrow> bool" where
  "layerOK grid L =
     (length (tiles L) = TILES_Y
      \<and> (\<forall>r < TILES_Y. length (tiles L ! r) = TILES_X
            \<and> (\<forall>c < TILES_X. cellOK grid r c (tiles L ! r ! c))))"

section \<open>Example inputs\<close>

text \<open>
  A small level, two one-row layers, a manager and a game for the concrete checks.
  \<open>recorder\<close> is the callback of an observer that keeps every manager state it is shown.
\<close>

definition exampleLevel :: LevelDefinition where
  "exampleLevel =
     \<lparr>lumina = [[1, 0], [0, 0]], umbra = [[0, 2], [-1, 3]],
      level_enemies = Some [\<lparr>spawn_type = ''patrol''\<rparr>, \<lparr>spawn_type = ''chase''\<rparr>]\<rparr>"

definition recorder :: "DimensionManager \<Rightarrow> DimensionManager list \<Rightarrow> DimensionManager list" where
  "recorder d seen = d # seen"

definition solidTile :: Tile where
  "solidTile = \<lparr>index = 1, tint = 0x123456, collides = False\<rparr>"

definition blankTile :: Tile where
  "blankTile = \<lparr>index = -1, tint = 0xffffff, collides = False\<rparr>"

definition exampleLayerA :: TilemapLayer where
  "exampleLayerA = \<lparr>tiles = [[solidTile, blankTile]], alpha = 0.5, depth = 7\<rparr>"

definition exampleLayerB :: TilemapLayer where
  "exampleLayerB = \<lparr>tiles = [[blankTile, solidTile\<lparr>collides := True\<rparr>]], alpha = 1, depth = 7\<rparr>"

definition exampleManager :: DimensionManager where
  "exampleManager =
     \<lparr>current = UMBRA, luminaLayer = exampleLayerA, umbraLayer = exampleLayerB,
      isShifting = False\<rparr>"

definition exampleGame :: "DimensionManager list Game" where
  "exampleGame = init exampleLayerA exampleLayerB recorder (newDimensionManager 0 [])"

section \<open>The dual-layer state application\<close>

lemma activateLayer_simps:
  "alpha (activateLayer L) = 1"
  "depth (activateLayer L) = 1"
  "tiles (activateLayer L) =
     map (map (\<lambda>t. if index t = 0 \<or> index t = -1 then t\<lparr>tint := 0xffffff\<rparr>
                     else t\<lparr>tint := 0xffffff, collides := True\<rparr>)) (tiles L)"
  by (simp_all add: activateLayer_def setDepth_def setCollisionByExclusion_def
      forEachTile_def setAlpha_def setCollision_def comp_def)

lemma ghostLayer_simps:
  "alpha (ghostLayer c L) = GHOST_ALPHA"
  "depth (ghostLayer c L) = 0"
  "tiles (ghostLayer c L) = map (map (\<lambda>t. t\<lparr>tint := c, collides := False\<rparr>)) (tiles L)"
  by (simp_all add: ghostLayer_def setDepth_def forEachTile_def setAlpha_def
      setCollision_def comp_def)

lemma activateLayer_tile:
  assumes "t \<in> set (allTiles (activateLayer L))"
  shows "tint t = 0xffffff \<and> (occupied t \<longrightarrow> collides t)"
  using assms by (auto simp: allTiles_def activateLayer_simps occupied_def)

lemma ghostLayer_tile:
  assumes "t \<in> set (allTiles (ghostLayer c L))"
  shows "tint t = c \<and> \<not> collides t"
  using assms by (auto simp: allTiles_def ghostLayer_simps)

lemma activateLayer_index:
  "map (map index) (tiles (activateLayer L)) = map (map index) (tiles L)"
  by (simp add: activateLayer_simps comp_def)

lemma ghostLayer_index:
  "map (map index) (tiles (ghostLayer c L)) = map (map index) (tiles L)"
  by (simp add: ghostLayer_simps comp_def)

lemma applyDimensionState_LUMINA:
  "current d = LUMINA \<Longrightarrow>
   applyDimensionState d =
     d\<lparr>luminaLayer := activateLayer (luminaLayer d),
       umbraLayer := ghostLayer UMBRA_TINT (umbraLayer d)\<rparr>"
  by (simp add: applyDimensionState_def)

lemma applyDimensionState_UMBRA:
  "current d = UMBRA \<Longrightarrow>
   applyDimensionState d =
     d\<lparr>umbraLayer := activateLayer (umbraLayer d),
       luminaLayer := ghostLayer LUMINA_TINT (luminaLayer d)\<rparr>"
  by (simp add: applyDimensionState_def)

lemma applyDimensionState_current [simp]:
  "current (applyDimensionState d) = current d"
  by (cases "current d") (simp_all add: applyDimensionState_LUMINA applyDimensionState_UMBRA)

lemma applyDimensionState_isShifting [simp]:
  "isShifting (applyDimensionState d) = isShifting d"
  by (cases "current d") (simp_all add: applyDimensionState_LUMINA applyDimensionState_UMBRA)

lemma getActiveLayer_apply:
  "getActiveLayer (applyDimensionState d) = activateLayer (getActiveLayer d)"
  by (cases "current d")
    (simp_all add: getActiveLayer_def applyDimensionState_LUMINA applyDimensionState_UMBRA)

lemma getInactiveLayer_apply:
  "getInactiveLayer (applyDimensionState d) =
     ghostLayer (if current d = LUMINA then UMBRA_TINT else LUMINA_TINT) (getInactiveLayer d)"
  by (cases "current d")
    (simp_all add: getInactiveLayer_def applyDimensionState_LUMINA applyDimensionState_UMBRA)

lemma applyDimensionState_twice:
  "applyDimensionState (applyDimensionState d) = applyDimensionState d"
proof -
  have a: "activateLayer (activateLayer L) = activateLayer L" for L
    by (rule TilemapLayer.equality) (simp_all add: activateLayer_simps comp_def)
  have g: "ghostLayer c (ghostLayer c L) = ghostLayer c L" for c L
    by (rule TilemapLayer.equality) (simp_all add: ghostLayer_simps comp_def)
  show ?thesis
    by (cases "current d")
      (simp_all add: applyDimensionState_LUMINA applyDimensionState_UMBRA a g)
qed

text \<open>
  Claim C3. Whenever the dimension state is applied, the layer of the current dimension
  has alpha 1, the neutral tint \<open>0xffffff\<close> on every cell, collision on every occupied cell
  and depth 1; the other layer has alpha 0.2, the ghost tint on every cell (\<open>0xffcc44\<close>
  when Lumina is the ghost, \<open>0x6644cc\<close> when Umbra is the ghost), collision off on every
  cell and depth 0, below the active layer. The current dimension and the tile indices of
  both layers are left as they were.
\<close>

theorem applyDimensionState_divergence:
  "alpha (getActiveLayer (applyDimensionState d)) = 1
   \<and> (\<forall>t \<in> set (allTiles (getActiveLayer (applyDimensionState d))).
         tint t = 0xffffff \<and> (occupied t \<longrightarrow> collides t))
   \<and> depth (getActiveLayer (applyDimensionState d)) = 1
   \<and> alpha (getInactiveLayer (applyDimensionState d)) = 0.2
   \<and> (\<forall>t \<in> set (allTiles (getInactiveLayer (applyDimensionState d))).
         tint t = (if getCurrent d = UMBRA then 0xffcc44 else 0x6644cc) \<and> \<not> collides t)
   \<and> depth (getInactiveLayer (applyDimensionState d)) = 0
   \<and> depth (getInactiveLayer (applyDimensionState d))
       < depth (getActiveLayer (applyDimensionState d))
   \<and> getCurrent (applyDimensionState d) = getCurrent d
   \<and> map (map index) (tiles (luminaLayer (applyDimensionState d)))
       = map (map index) (tiles (luminaLayer d))
   \<and> map (map index) (tiles (umbraLayer (applyDimensionState d)))
       = map (map index) (tiles (umbraLayer d))"
proof -
  have act: "\<forall>t \<in> set (allTiles (getActiveLayer (applyDimensionState d))).
      tint t = 0xffffff \<and> (occupied t \<longrightarrow> collides t)"
    using activateLayer_tile by (simp add: getActiveLayer_apply)
  have gh: "\<forall>t \<in> set (allTiles (getInactiveLayer (applyDimensionState d))).
      tint t = (if getCurrent d = UMBRA then 0xffcc44 else 0x6644cc) \<and> \<not> collides t"
  proof
    fix t assume "t \<in> set (allTiles (getInactiveLayer (applyDimensionState d)))"
    then have "tint t = (if current d = LUMINA then UMBRA_TINT else LUMINA_TINT) \<and> \<not> collides t"
      using ghostLayer_tile by (simp add: getInactiveLayer_apply)
    then show "tint t = (if getCurrent d = UMBRA then 0xffcc44 else 0x6644cc) \<and> \<not> collides t"
      by (cases "current d") (simp_all add: getCurrent_def UMBRA_TINT_def LUMINA_TINT_def)
  qed
  have idx: "map (map index) (tiles (luminaLayer (applyDimensionState d)))
       = map (map index) (tiles (luminaLayer d))
     \<and> map (map index) (tiles (umbraLayer (applyDimensionState d)))
       = map (map index) (tiles (umbraLayer d))"
    by (cases "current d")
      (simp_all add: applyDimensionState_LUMINA applyDimensionState_UMBRA
        activateLayer_index ghostLayer_index)
  show ?thesis
    using act gh idx
    by (simp add: getActiveLayer_apply getInactiveLayer_apply activateLayer_simps
        ghostLayer_simps GHOST_ALPHA_def getCurrent_def)
qed

theorem applyDimensionState_divergence_witness:
  "solidTile\<lparr>tint := 0xffffff, collides := True\<rparr>
     \<in> set (allTiles (getActiveLayer (applyDimensionState exampleManager)))
   \<and> occupied (solidTile\<lparr>tint := 0xffffff, collides := True\<rparr>)
   \<and> collides (solidTile\<lparr>tint := 0xffffff, collides := True\<rparr>)
   \<and> solidTile\<lparr>tint := 0xffcc44, collides := False\<rparr>
     \<in> set (allTiles (getInactiveLayer (applyDimensionState exampleManager)))
   \<and> getCurrent exampleManager = UMBRA
   \<and> alpha (getInactiveLayer (applyDimensionState exampleManager)) = 0.2"
  using applyDimensionState_divergence [of exampleManager]
  by (simp add: exampleManager_def exampleLayerA_def exampleLayerB_def solidTile_def
      blankTile_def applyDimensionState_UMBRA getActiveLayer_def getInactiveLayer_def
      activateLayer_simps ghostLayer_simps allTiles_def occupied_def getCurrent_def
      LUMINA_TINT_def)

text \<open>
  Claim C7. The state application is a function of the manager's state, and applying it
  twice in succession gives the same manager state (dimension, both layers with their
  alpha, depth and every tile's tint and collision flag) as applying it once, from every
  starting state.
\<close>

theorem applyDimensionState_idempotent:
  "applyDimensionState (applyDimensionState d) = applyDimensionState d"
  by (rule applyDimensionState_twice)

theorem applyDimensionState_idempotent_witness:
  "applyDimensionState (applyDimensionState exampleManager) = applyDimensionState exampleManager
   \<and> tiles (luminaLayer (applyDimensionState exampleManager))
       = [[solidTile\<lparr>tint := 0xffcc44, collides := False\<rparr>,
           blankTile\<lparr>tint := 0xffcc44, collides := False\<rparr>]]"
  using applyDimensionState_idempotent [of exampleManager]
  by (simp add: exampleManager_def exampleLayerA_def solidTile_def blankTile_def
      applyDimensionState_UMBRA ghostLayer_simps LUMINA_TINT_def)

section \<open>Shifting\<close>

lemma shift_locked: "isShifting (dm g) \<Longrightarrow> shift g = g"
  by (simp add: shift_def)

lemma shift_accepted:
  "\<not> isShifting (dm g) \<Longrightarrow>
   shift g = g\<lparr>dm := toggled (dm g),
               world := (case onShiftCallback g of Some cb \<Rightarrow> cb (toggled (dm g)) (world g)
                         | None \<Rightarrow> world g),
               timers := timers g @ [now g + SHIFT_DURATION_MS]\<rparr>"
  by (cases "onShiftCallback g") (simp_all add: shift_def delayedCall_def toggled_def Let_def)

lemma toggled_simps [simp]:
  "isShifting (toggled d) = True"
  "current (toggled d) = (if current d = LUMINA then UMBRA else LUMINA)"
  "applyDimensionState (toggled d) = toggled d"
  by (simp_all add: toggled_def applyDimensionState_twice)

lemma unlock_fold:
  "fold (\<lambda>_ h. h\<lparr>dm := (dm h)\<lparr>isShifting := False\<rparr>\<rparr>) xs g =
     (if xs = [] then g else g\<lparr>dm := (dm g)\<lparr>isShifting := False\<rparr>\<rparr>)"
  by (induction xs arbitrary: g) auto

lemma clockUpdate_eq:
  "clockUpdate delta g =
     (if \<exists>u \<in> set (timers g). u \<le> now g + delta
      then g\<lparr>now := now g + delta, timers := filter (\<lambda>u. \<not> u \<le> now g + delta) (timers g),
             dm := (dm g)\<lparr>isShifting := False\<rparr>\<rparr>
      else g\<lparr>now := now g + delta, timers := filter (\<lambda>u. \<not> u \<le> now g + delta) (timers g)\<rparr>)"
  by (auto simp: clockUpdate_def Let_def unlock_fold filter_empty_conv)

lemma run_simps [simp]:
  "run [] g = g"
  "run (e # evs) g = run evs (step e g)"
  "run (evs @ evs') g = run evs' (run evs g)"
  by (simp_all add: run_def)

lemma elapsed_append [simp]: "elapsed (evs @ evs') = elapsed evs + elapsed evs'"
  by (induction evs rule: elapsed.induct) simp_all

lemma run_locked:
  assumes "isShifting (dm g)" "timers g = [due]" "now g + elapsed evs < due"
    "applyDimensionState (dm g) = dm g"
  shows "run evs g = g\<lparr>now := now g + elapsed evs\<rparr>"
  using assms
proof (induction evs arbitrary: g)
  case Nil
  then show ?case by simp
next
  case (Cons e evs)
  show ?case
  proof (cases e)
    case ShiftPressed
    with Cons show ?thesis by (simp add: shift_locked)
  next
    case (Update delta)
    let ?h = "g\<lparr>now := now g + delta\<rparr>"
    from Cons.prems Update have st: "clockUpdate delta g = ?h"
      by (simp add: clockUpdate_eq)
    from Cons.prems Update have "run evs ?h = ?h\<lparr>now := now ?h + elapsed evs\<rparr>"
      by (intro Cons.IH) simp_all
    with st Update show ?thesis by (simp add: add.assoc)
  next
    case Apply
    with Cons show ?thesis by simp
  qed
qed

lemma shift_then_locked:
  assumes "\<not> isShifting (dm g)" "timers g = []" "elapsed evs < SHIFT_DURATION_MS"
  shows "run evs (shift g) = (shift g)\<lparr>now := now g + elapsed evs\<rparr>"
proof -
  have "run evs (shift g) = (shift g)\<lparr>now := now (shift g) + elapsed evs\<rparr>"
    using assms by (intro run_locked [where due = "now g + SHIFT_DURATION_MS"])
      (simp_all add: shift_accepted)
  then show ?thesis using assms by (simp add: shift_accepted)
qed

lemma shift_after_lock:
  assumes "\<not> isShifting (dm g)" "timers g = []" "elapsed evs < SHIFT_DURATION_MS"
    "SHIFT_DURATION_MS \<le> elapsed evs + delta"
  shows "current (dm (run (evs @ [Update delta, ShiftPressed]) (shift g))) = current (dm g)"
proof -
  let ?h = "(shift g)\<lparr>now := now g + elapsed evs\<rparr>"
  have u: "\<not> isShifting (dm (clockUpdate delta ?h))"
    using assms by (simp add: clockUpdate_eq shift_accepted)
  have c: "current (dm (clockUpdate delta ?h)) = current (dm (shift g))"
    by (simp add: clockUpdate_eq)
  have "current (dm (shift (clockUpdate delta ?h))) = current (dm g)"
    using u c assms(1) by (cases "current (dm g)") (simp_all add: shift_accepted)
  then show ?thesis
    using assms by (simp add: shift_then_locked)
qed

lemma init_eq:
  "init L U cb g =
     g\<lparr>dm := applyDimensionState ((dm g)\<lparr>luminaLayer := L, umbraLayer := U\<rparr>),
       onShiftCallback := Some cb\<rparr>"
  by (simp add: init_def Let_def)

lemma exampleGame_simps:
  "current (dm exampleGame) = LUMINA"
  "isShifting (dm exampleGame) = False"
  "timers exampleGame = []"
  "now exampleGame = 0"
  "world exampleGame = []"
  "onShiftCallback exampleGame = Some recorder"
  "luminaLayer (dm exampleGame) = activateLayer exampleLayerA"
  "umbraLayer (dm exampleGame) = ghostLayer UMBRA_TINT exampleLayerB"
  by (simp_all add: exampleGame_def init_eq newDimensionManager_def applyDimensionState_LUMINA)

lemma toggled_layers:
  "(\<forall>t\<in>set (allTiles (getActiveLayer (toggled d))). occupied t \<longrightarrow> collides t)
   \<and> (\<forall>t\<in>set (allTiles (getInactiveLayer (toggled d))). occupied t \<longrightarrow> \<not> collides t)"
  using activateLayer_tile ghostLayer_tile
  by (simp add: toggled_def getActiveLayer_apply getInactiveLayer_apply)

text \<open>
  Claim C2. In an accepted shift the callback runs after the state application: an
  observer that records the manager it is shown sees exactly one state, the one the call
  ends with, with the dimension already flipped, collision on for every occupied cell of
  the active layer and off for every occupied cell of the inactive layer, and with nothing
  left for a further application to change.
\<close>

theorem notification_after_apply:
  assumes "\<not> getIsShifting (dm g)" and "onShiftCallback g = Some recorder"
  shows "\<exists>v. world (shift g) = v # world g
     \<and> v = dm (shift g)
     \<and> getCurrent v \<noteq> getCurrent (dm g)
     \<and> (\<forall>t\<in>set (allTiles (getActiveLayer v)). occupied t \<longrightarrow> collides t)
     \<and> (\<forall>t\<in>set (allTiles (getInactiveLayer v)). occupied t \<longrightarrow> \<not> collides t)
     \<and> applyDimensionState v = v"
proof -
  have "world (shift g) = toggled (dm g) # world g" "dm (shift g) = toggled (dm g)"
    using assms by (simp_all add: getIsShifting_def shift_accepted recorder_def)
  moreover have "getCurrent (toggled (dm g)) \<noteq> getCurrent (dm g)"
    by (simp add: getCurrent_def)
  ultimately show ?thesis
    using toggled_layers [of "dm g"] by simp
qed

theorem notification_after_apply_witness:
  "\<not> getIsShifting (dm exampleGame) \<and> onShiftCallback exampleGame = Some recorder
   \<and> world (shift exampleGame) = [dm (shift exampleGame)]
   \<and> getCurrent (hd (world (shift exampleGame))) = UMBRA
   \<and> map (map collides) (tiles (getActiveLayer (hd (world (shift exampleGame)))))
        = [[False, True]]
   \<and> map (map collides) (tiles (getInactiveLayer (hd (world (shift exampleGame)))))
        = [[False, False]]"
proof -
  have h: "\<not> getIsShifting (dm exampleGame)" "onShiftCallback exampleGame = Some recorder"
    by (simp_all add: exampleGame_simps getIsShifting_def)
  from notification_after_apply [OF h]
  have "world (shift exampleGame) = [dm (shift exampleGame)]"
    by (auto simp: exampleGame_simps)
  moreover have "dm (shift exampleGame) = toggled (dm exampleGame)"
    by (simp add: shift_accepted exampleGame_simps)
  moreover have "map (map collides) (tiles (getActiveLayer (toggled (dm exampleGame)))) = [[False, True]]"
    "map (map collides) (tiles (getInactiveLayer (toggled (dm exampleGame)))) = [[False, False]]"
    by (simp_all add: toggled_def applyDimensionState_UMBRA
        getActiveLayer_def getInactiveLayer_def exampleGame_simps activateLayer_simps
        ghostLayer_simps exampleLayerA_def exampleLayerB_def solidTile_def blankTile_def)
  ultimately show ?thesis
    using h by (simp add: getCurrent_def exampleGame_simps)
qed

text \<open>
  Claim C5. The manager reports one of the two dimensions and never both; a shift keeps
  the dimension when it is dropped and flips it to the other one when it is accepted; a
  clock update and a state application keep it.
\<close>

theorem exactly_one_active:
  "(getCurrent d = LUMINA \<or> getCurrent d = UMBRA)
   \<and> \<not> (getCurrent d = LUMINA \<and> getCurrent d = UMBRA)
   \<and> getCurrent (dm (shift g)) =
       (if getIsShifting (dm g) then getCurrent (dm g)
        else if getCurrent (dm g) = LUMINA then UMBRA else LUMINA)
   \<and> getCurrent (dm (clockUpdate delta g)) = getCurrent (dm g)
   \<and> getCurrent (applyDimensionState d) = getCurrent d"
proof -
  have "getCurrent d = LUMINA \<or> getCurrent d = UMBRA"
    by (cases "getCurrent d") simp_all
  moreover have "getCurrent (dm (shift g)) =
       (if getIsShifting (dm g) then getCurrent (dm g)
        else if getCurrent (dm g) = LUMINA then UMBRA else LUMINA)"
    by (cases "isShifting (dm g)")
      (simp_all add: getIsShifting_def getCurrent_def shift_locked shift_accepted)
  ultimately show ?thesis
    by (simp add: getCurrent_def clockUpdate_eq)
qed

theorem exactly_one_active_witness:
  "getCurrent (dm exampleGame) = LUMINA \<and> getCurrent (dm exampleGame) \<noteq> UMBRA
   \<and> getCurrent (dm (shift exampleGame)) = UMBRA
   \<and> getCurrent (dm (shift exampleGame)) \<noteq> LUMINA
   \<and> getCurrent (dm (shift (shift exampleGame))) = UMBRA"
  using exactly_one_active [of "dm exampleGame" exampleGame]
    exactly_one_active [of "dm (shift exampleGame)" "shift exampleGame"]
  by (simp add: getCurrent_def getIsShifting_def exampleGame_simps shift_accepted)

section \<open>Enemies and the scene\<close>

lemma onDimensionShift_simps:
  "dimension (onDimensionShift cur e) = dimension e"
  "damage (onDimensionShift cur e) = damage e"
  "isActive (onDimensionShift cur e) = (cur = dimension e)"
  "body_enable (onDimensionShift cur e) = (cur = dimension e)"
  "sprite_alpha (onDimensionShift cur e) = (if cur = dimension e then 1 else GHOST_ALPHA)"
  "sprite_tint (onDimensionShift cur e) =
     (if cur = dimension e then 0xffffff
      else if dimension e = LUMINA then LUMINA_TINT else UMBRA_TINT)"
  by (simp_all add: onDimensionShift_def Let_def)

lemma GameScene_onDimensionShift_enemies:
  "enemies (GameScene_onDimensionShift d s) = map (onDimensionShift (current d)) (enemies s)"
  by (simp add: GameScene_onDimensionShift_def rebuildCollider_def getCurrent_def Let_def)

lemma shift_scene_enemies:
  assumes "\<not> isShifting (dm g)" "onShiftCallback g = Some GameScene_onDimensionShift"
  shows "enemies (world (shift g)) =
     map (onDimensionShift (current (dm (shift g)))) (enemies (world g))"
  using assms by (simp add: shift_accepted GameScene_onDimensionShift_enemies)

text \<open>
  Claim C4. An enemy notified of a transition keeps its home dimension and becomes active
  exactly when its home dimension is the new active one; an active enemy has alpha 1, the
  cleared tint \<open>0xffffff\<close> and its body enabled, an inactive one has alpha 0.2, the ghost
  tint of its home dimension and its body disabled. An accepted shift of a manager whose
  callback is the scene's notifies every enemy of the scene with the new active dimension.
\<close>

theorem enemy_follows_dimension:
  "dimension (onDimensionShift cur e) = dimension e
   \<and> isActive (onDimensionShift cur e) = (dimension e = cur)
   \<and> (dimension e = cur \<longrightarrow>
        sprite_alpha (onDimensionShift cur e) = 1
      \<and> sprite_tint (onDimensionShift cur e) = 0xffffff
      \<and> \<not> isTinted (onDimensionShift cur e)
      \<and> body_enable (onDimensionShift cur e))
   \<and> (dimension e \<noteq> cur \<longrightarrow>
        sprite_alpha (onDimensionShift cur e) = 0.2
      \<and> sprite_tint (onDimensionShift cur e)
          = (if dimension e = LUMINA then 0xffcc44 else 0x6644cc)
      \<and> isTinted (onDimensionShift cur e)
      \<and> \<not> body_enable (onDimensionShift cur e))
   \<and> (\<not> getIsShifting (dm g) \<and> onShiftCallback g = Some GameScene_onDimensionShift \<longrightarrow>
        enemies (world (shift g))
          = map (onDimensionShift (getCurrent (dm (shift g)))) (enemies (world g)))"
proof -
  have "enemies (world (shift g))
      = map (onDimensionShift (getCurrent (dm (shift g)))) (enemies (world g))"
    if "\<not> getIsShifting (dm g)" "onShiftCallback g = Some GameScene_onDimensionShift"
    using that shift_scene_enemies [of g] by (simp add: getIsShifting_def getCurrent_def)
  then show ?thesis
    by (auto simp: onDimensionShift_simps isTinted_def GHOST_ALPHA_def LUMINA_TINT_def
        UMBRA_TINT_def)
qed

lemma spawn_fold:
  "fold (\<lambda>spawn k. k\<lparr>enemies := enemies k @ [f spawn]\<rparr>) spawns s =
     s\<lparr>enemies := enemies s @ map f spawns\<rparr>"
  by (induction spawns arbitrary: s) simp_all

lemma spawnEnemies_enemies:
  "enemies (spawnEnemies level d s) =
     (case level_enemies level of
        None \<Rightarrow> enemies s
      | Some spawns \<Rightarrow>
          map (onDimensionShift (current d))
            (enemies s @ map (\<lambda>spawn. if spawn_type spawn = ''patrol'' then newPatrolEnemy
                                       else newChaseEnemy) spawns))"
  by (simp add: spawnEnemies_def spawn_fold getCurrent_def Let_def split: option.split)

lemma create_simps:
  "dm (create level t0) =
     applyDimensionState \<lparr>current = LUMINA, luminaLayer = fst (createTilemap level),
       umbraLayer = snd (createTilemap level), isShifting = False\<rparr>"
  "onShiftCallback (create level t0) = Some GameScene_onDimensionShift"
  "now (create level t0) = t0"
  "timers (create level t0) = []"
  "enemies (world (create level t0)) =
     (case level_enemies level of
        None \<Rightarrow> []
      | Some spawns \<Rightarrow>
          map (onDimensionShift LUMINA)
            (map (\<lambda>spawn. if spawn_type spawn = ''patrol'' then newPatrolEnemy
                           else newChaseEnemy) spawns))"
  by (simp_all add: create_def init_eq newDimensionManager_def Let_def split_def
      spawnEnemies_enemies rebuildCollider_def split: option.split)

lemma create_current [simp]:
  "current (dm (create level t0)) = LUMINA" "isShifting (dm (create level t0)) = False"
  by (simp_all add: create_simps)

theorem enemy_follows_dimension_witness:
  "sprite_alpha (onDimensionShift UMBRA newChaseEnemy) = 1
   \<and> sprite_tint (onDimensionShift UMBRA newChaseEnemy) = 0xffffff
   \<and> body_enable (onDimensionShift UMBRA newChaseEnemy)
   \<and> sprite_alpha (onDimensionShift LUMINA newChaseEnemy) = 0.2
   \<and> sprite_tint (onDimensionShift LUMINA newChaseEnemy) = 0x6644cc
   \<and> \<not> body_enable (onDimensionShift LUMINA newChaseEnemy)
   \<and> \<not> getIsShifting (dm (create exampleLevel 0))
   \<and> onShiftCallback (create exampleLevel 0) = Some GameScene_onDimensionShift
   \<and> map isActive (enemies (world (shift (create exampleLevel 0)))) = [False, True]"
  using enemy_follows_dimension [of UMBRA newChaseEnemy "create exampleLevel 0"]
    enemy_follows_dimension [of LUMINA newChaseEnemy "create exampleLevel 0"]
  by (simp add: create_simps getIsShifting_def getCurrent_def shift_accepted exampleLevel_def
      newChaseEnemy_def newPatrolEnemy_def newEnemy_def onDimensionShift_simps)

lemma step_scene_inv:
  assumes "onShiftCallback g = Some GameScene_onDimensionShift"
    and "\<forall>e \<in> set (enemies (world g)).
           isActive e = (dimension e = current (dm g)) \<and> body_enable e = isActive e"
  shows "onShiftCallback (step ev g) = Some GameScene_onDimensionShift
     \<and> (\<forall>e \<in> set (enemies (world (step ev g))).
           isActive e = (dimension e = current (dm (step ev g))) \<and> body_enable e = isActive e)"
proof (cases ev)
  case ShiftPressed
  show ?thesis
  proof (cases "isShifting (dm g)")
    case True
    with assms ShiftPressed show ?thesis by (simp add: shift_locked)
  next
    case False
    with assms ShiftPressed show ?thesis
      by (auto simp: shift_accepted GameScene_onDimensionShift_enemies onDimensionShift_simps)
  qed
next
  case (Update delta)
  with assms show ?thesis by (simp add: clockUpdate_eq)
next
  case Apply
  with assms show ?thesis by simp
qed

lemma run_scene_inv:
  assumes "onShiftCallback g = Some GameScene_onDimensionShift"
    and "\<forall>e \<in> set (enemies (world g)).
           isActive e = (dimension e = current (dm g)) \<and> body_enable e = isActive e"
  shows "onShiftCallback (run evs g) = Some GameScene_onDimensionShift
     \<and> (\<forall>e \<in> set (enemies (world (run evs g))).
           isActive e = (dimension e = current (dm (run evs g))) \<and> body_enable e = isActive e)"
  using assms
proof (induction evs arbitrary: g)
  case Nil
  then show ?case by simp
next
  case (Cons ev evs)
  from step_scene_inv [OF Cons.prems, of ev] show ?case
    by (simp only: run_simps) (rule Cons.IH, simp_all)
qed

lemma create_scene_inv:
  "\<forall>e \<in> set (enemies (world (create level t0))).
     isActive e = (dimension e = current (dm (create level t0))) \<and> body_enable e = isActive e"
  by (auto simp: create_simps onDimensionShift_simps split: option.split)

lemma notified_fold:
  "ds \<noteq> [] \<Longrightarrow>
   isActive (fold onDimensionShift ds e) = (last ds = dimension e)
   \<and> body_enable (fold onDimensionShift ds e) = (last ds = dimension e)
   \<and> dimension (fold onDimensionShift ds e) = dimension e"
proof (induction ds arbitrary: e)
  case Nil
  then show ?case by simp
next
  case (Cons d ds)
  show ?case
  proof (cases "ds = []")
    case True
    then show ?thesis by (simp add: onDimensionShift_simps)
  next
    case False
    with Cons.IH [of "onDimensionShift d e"] show ?thesis
      by (simp add: onDimensionShift_simps)
  qed
qed

text \<open>
  Claim C9. After any non-empty sequence of notifications an enemy can damage exactly when
  the last notified dimension is its home dimension, and its body is enabled exactly then.
  In a scene, after any sequence of events, every enemy can damage exactly when its home
  dimension is the manager's current one. The overlap handler leaves the player untouched
  for an enemy that cannot damage and applies the enemy's damage for one that can.
\<close>

theorem ghost_enemy_cannot_damage:
  "(ds \<noteq> [] \<longrightarrow>
      canDamage (fold onDimensionShift ds e) = (last ds = getDimension e)
    \<and> body_enable (fold onDimensionShift ds e) = canDamage (fold onDimensionShift ds e)
    \<and> getDimension (fold onDimensionShift ds e) = getDimension e)
   \<and> (\<forall>x \<in> set (enemies (world (run evs (create level t0)))).
        canDamage x = (getDimension x = getCurrent (dm (run evs (create level t0))))
      \<and> body_enable x = canDamage x)
   \<and> (\<not> canDamage e \<longrightarrow> enemyOverlap takeDamage e p = p)
   \<and> (canDamage e \<longrightarrow> enemyOverlap takeDamage e p = takeDamage (getDamage e) p)"
proof -
  have "\<forall>x \<in> set (enemies (world (run evs (create level t0)))).
        canDamage x = (getDimension x = getCurrent (dm (run evs (create level t0))))
      \<and> body_enable x = canDamage x"
    using run_scene_inv [OF create_simps(2) create_scene_inv, where evs = evs]
    by (simp add: canDamage_def getDimension_def getCurrent_def)
  then show ?thesis
    using notified_fold [of ds e]
    by (simp add: canDamage_def getDimension_def enemyOverlap_def)
qed

theorem ghost_enemy_cannot_damage_witness:
  "canDamage (fold onDimensionShift [UMBRA, LUMINA] newChaseEnemy) = False
   \<and> canDamage (fold onDimensionShift [LUMINA, UMBRA] newChaseEnemy) = True
   \<and> enemies (world (run [ShiftPressed] (create exampleLevel 0)))
       = [onDimensionShift UMBRA newPatrolEnemy, onDimensionShift UMBRA newChaseEnemy]
   \<and> map canDamage (enemies (world (run [ShiftPressed] (create exampleLevel 0)))) = [False, True]
   \<and> enemyOverlap (\<lambda>n hp. hp - n) (onDimensionShift UMBRA newPatrolEnemy) (5::nat) = 5
   \<and> enemyOverlap (\<lambda>n hp. hp - n) (onDimensionShift UMBRA newChaseEnemy) (5::nat) = 4"
proof -
  have e: "enemies (world (shift (create exampleLevel 0)))
       = [onDimensionShift UMBRA newPatrolEnemy, onDimensionShift UMBRA newChaseEnemy]"
    by (rule nth_equalityI)
      (simp_all add: shift_accepted create_simps exampleLevel_def
        GameScene_onDimensionShift_enemies less_Suc_eq onDimensionShift_def
        newPatrolEnemy_def newChaseEnemy_def newEnemy_def)
  show ?thesis
    using ghost_enemy_cannot_damage [of "[UMBRA, LUMINA]" newChaseEnemy "[ShiftPressed]"
        exampleLevel 0 "\<lambda>n hp. hp - n" "5::nat"]
      ghost_enemy_cannot_damage [of "[LUMINA, UMBRA]" "onDimensionShift UMBRA newChaseEnemy"
        "[ShiftPressed]" exampleLevel 0 "\<lambda>n hp. hp - n" "5::nat"]
    by (simp add: e canDamage_def getDimension_def getDamage_def enemyOverlap_def
        onDimensionShift_def newPatrolEnemy_def newChaseEnemy_def newEnemy_def)
qed

section \<open>Levels built by the scene\<close>

lemma fold_preserves:
  assumes step: "\<And>a K. a \<in> set as \<Longrightarrow> Inv K \<Longrightarrow> Inv (h a K)"
    and start: "Inv K0"
  shows "Inv (fold h as K0)"
  using start step by (induction as arbitrary: K0) simp_all

lemma layerOK_blank: "layerOK grid (createBlankLayer TILES_X TILES_Y)"
  by (simp add: layerOK_def createBlankLayer_def cellOK_def)

lemma layerOK_putTileAt:
  assumes "layerOK grid L" "row < length grid" "col < length (grid ! row)"
    "0 < grid ! row ! col"
  shows "layerOK grid (putTileAt (grid ! row ! col) col row L)"
proof (cases "row < length (tiles L) \<and> col < length (tiles L ! row)")
  case False
  with assms(1) show ?thesis by (auto simp: putTileAt_def)
next
  case True
  then have rc: "row < TILES_Y" "col < TILES_X"
    using assms(1) by (auto simp: layerOK_def)
  let ?t = "(tiles L ! row ! col)\<lparr>index := grid ! row ! col, collides := False\<rparr>"
  have eq: "tiles (putTileAt (grid ! row ! col) col row L)
      = (tiles L)[row := (tiles L ! row)[col := ?t]]"
    using True by (simp add: putTileAt_def)
  have ok: "cellOK grid row col ?t"
    using assms by (simp add: cellOK_def)
  show ?thesis
    unfolding layerOK_def eq
  proof (intro conjI allI impI)
    show "length ((tiles L)[row := (tiles L ! row)[col := ?t]]) = TILES_Y"
      using assms(1) by (simp add: layerOK_def)
  next
    fix r assume "r < TILES_Y"
    then show "length ((tiles L)[row := (tiles L ! row)[col := ?t]] ! r) = TILES_X"
      using assms(1) by (cases "r = row") (simp_all add: layerOK_def)
  next
    fix r c assume "r < TILES_Y" "c < TILES_X"
    then show "cellOK grid r c ((tiles L)[row := (tiles L ! row)[col := ?t]] ! r ! c)"
      using assms(1) ok by (cases "r = row"; cases "c = col") (simp_all add: layerOK_def)
  qed
qed

lemma layerOK_fillRow:
  assumes "layerOK grid L" "row < length grid"
  shows "layerOK grid (fillRow row (grid ! row) L)"
  unfolding fillRow_def
  by (rule fold_preserves [where Inv = "layerOK grid"])
    (simp_all add: Let_def assms layerOK_putTileAt)

lemma layerOK_fillLayer: "layerOK grid (fillLayer grid (createBlankLayer TILES_X TILES_Y))"
  unfolding fillLayer_def
  by (rule fold_preserves [where Inv = "layerOK grid"])
    (simp_all add: layerOK_fillRow layerOK_blank)

lemma layerOK_activateLayer: "layerOK grid L \<Longrightarrow> layerOK grid (activateLayer L)"
  by (auto simp: layerOK_def activateLayer_simps cellOK_def)

lemma layerOK_ghostLayer: "layerOK grid L \<Longrightarrow> layerOK grid (ghostLayer c L)"
  by (auto simp: layerOK_def ghostLayer_simps cellOK_def)

lemma layerOK_tile:
  assumes "layerOK grid L" "t \<in> set (allTiles L)" "index t \<le> 0"
  shows "\<not> collides t"
proof -
  from assms(2) obtain row where "row \<in> set (tiles L)" "t \<in> set row"
    by (auto simp: allTiles_def)
  then obtain r c where "r < length (tiles L)" "c < length (tiles L ! r)" "t = tiles L ! r ! c"
    by (metis in_set_conv_nth)
  with assms(1) have "cellOK grid r c t"
    by (simp add: layerOK_def)
  with assms(3) show ?thesis
    by (auto simp: cellOK_def)
qed

lemma layerOK_apply:
  "layerOK gl (luminaLayer d) \<Longrightarrow> layerOK gl (luminaLayer (applyDimensionState d))"
  "layerOK gu (umbraLayer d) \<Longrightarrow> layerOK gu (umbraLayer (applyDimensionState d))"
  by (cases "current d";
      simp add: applyDimensionState_LUMINA applyDimensionState_UMBRA layerOK_activateLayer
        layerOK_ghostLayer)+

lemma applyDimensionState_unlock:
  "applyDimensionState (d\<lparr>isShifting := b\<rparr>) = (applyDimensionState d)\<lparr>isShifting := b\<rparr>"
  by (cases "current d") (simp_all add: applyDimensionState_LUMINA applyDimensionState_UMBRA)

lemma step_layer_inv:
  assumes "layerOK gl (luminaLayer (dm g))" "layerOK gu (umbraLayer (dm g))"
    "applyDimensionState (dm g) = dm g"
  shows "layerOK gl (luminaLayer (dm (step ev g))) \<and> layerOK gu (umbraLayer (dm (step ev g)))
     \<and> applyDimensionState (dm (step ev g)) = dm (step ev g)"
proof (cases ev)
  case ShiftPressed
  show ?thesis
  proof (cases "isShifting (dm g)")
    case True
    with assms ShiftPressed show ?thesis by (simp add: shift_locked)
  next
    case False
    with assms ShiftPressed show ?thesis
      by (simp add: shift_accepted) (simp add: toggled_def layerOK_apply)
  qed
next
  case (Update delta)
  with assms show ?thesis by (simp add: clockUpdate_eq applyDimensionState_unlock)
next
  case Apply
  with assms show ?thesis by (simp add: layerOK_apply)
qed

lemma run_layer_inv:
  assumes "layerOK gl (luminaLayer (dm g))" "layerOK gu (umbraLayer (dm g))"
    "applyDimensionState (dm g) = dm g"
  shows "layerOK gl (luminaLayer (dm (run evs g))) \<and> layerOK gu (umbraLayer (dm (run evs g)))
     \<and> applyDimensionState (dm (run evs g)) = dm (run evs g)"
  using assms
proof (induction evs arbitrary: g)
  case Nil
  then show ?case by simp
next
  case (Cons ev evs)
  from step_layer_inv [OF Cons.prems, of ev] show ?case
    by (simp only: run_simps) (rule Cons.IH, simp_all)
qed

lemma create_layer_inv:
  "layerOK (lumina level) (luminaLayer (dm (create level t0)))"
  "layerOK (umbra level) (umbraLayer (dm (create level t0)))"
  "applyDimensionState (dm (create level t0)) = dm (create level t0)"
  by (simp_all add: create_simps applyDimensionState_twice layerOK_apply createTilemap_def
      layerOK_fillLayer)

lemma reachable_inv:
  "layerOK (lumina level) (luminaLayer (dm (run evs (create level t0))))
   \<and> layerOK (umbra level) (umbraLayer (dm (run evs (create level t0))))
   \<and> applyDimensionState (dm (run evs (create level t0))) = dm (run evs (create level t0))"
  by (rule run_layer_inv) (rule create_layer_inv)+

lemma layerOK_cell:
  assumes "layerOK grid L" "r < TILES_Y" "c < TILES_X"
    "\<not> (r < length grid \<and> c < length (grid ! r) \<and> 0 < grid ! r ! c)"
  shows "index (tiles L ! r ! c) = -1 \<and> \<not> collides (tiles L ! r ! c)"
  using assms by (auto simp: layerOK_def cellOK_def)

text \<open>
  Claim C8. In a level built by the scene, after any sequence of shift requests, clock
  updates and state applications, no tile whose index is \<open>0\<close> or \<open>-1\<close> (or any other
  non-positive value) collides, in either layer; and every cell of a layer for which the
  level grid has no positive tile id is a blank tile that does not collide.
\<close>

theorem empty_cells_never_collide:
  "(\<forall>t \<in> set (allTiles (luminaLayer (dm (run evs (create level t0)))))
         \<union> set (allTiles (umbraLayer (dm (run evs (create level t0))))).
      index t \<le> 0 \<longrightarrow> \<not> collides t)
   \<and> (\<forall>r c. r < TILES_Y \<and> c < TILES_X
          \<and> \<not> (r < length (lumina level) \<and> c < length (lumina level ! r)
                \<and> 0 < lumina level ! r ! c) \<longrightarrow>
          index (tiles (luminaLayer (dm (run evs (create level t0)))) ! r ! c) = -1
        \<and> \<not> collides (tiles (luminaLayer (dm (run evs (create level t0)))) ! r ! c))
   \<and> (\<forall>r c. r < TILES_Y \<and> c < TILES_X
          \<and> \<not> (r < length (umbra level) \<and> c < length (umbra level ! r)
                \<and> 0 < umbra level ! r ! c) \<longrightarrow>
          index (tiles (umbraLayer (dm (run evs (create level t0)))) ! r ! c) = -1
        \<and> \<not> collides (tiles (umbraLayer (dm (run evs (create level t0)))) ! r ! c))"
  using reachable_inv [of level evs t0] layerOK_tile layerOK_cell
  by (intro conjI ballI allI impI) (blast+)

theorem empty_cells_never_collide_witness:
  "lumina exampleLevel ! 0 ! 1 = 0
   \<and> index (tiles (luminaLayer (dm (run [ShiftPressed, Update 200, ShiftPressed, Apply]
        (create exampleLevel 0)))) ! 0 ! 1) = -1
   \<and> \<not> collides (tiles (luminaLayer (dm (run [ShiftPressed, Update 200, ShiftPressed, Apply]
        (create exampleLevel 0)))) ! 0 ! 1)
   \<and> umbra exampleLevel ! 1 ! 0 = -1
   \<and> \<not> collides (tiles (umbraLayer (dm (run [ShiftPressed, Update 200, ShiftPressed, Apply]
        (create exampleLevel 0)))) ! 1 ! 0)"
proof -
  let ?g = "run [ShiftPressed, Update 200, ShiftPressed, Apply] (create exampleLevel 0)"
  have a: "(0::nat) < TILES_Y \<and> (1::nat) < TILES_X
      \<and> \<not> (0 < length (lumina exampleLevel) \<and> 1 < length (lumina exampleLevel ! 0)
            \<and> 0 < lumina exampleLevel ! 0 ! 1)"
    by (simp add: TILES_X_def TILES_Y_def exampleLevel_def)
  have b: "(1::nat) < TILES_Y \<and> (0::nat) < TILES_X
      \<and> \<not> (1 < length (umbra exampleLevel) \<and> 0 < length (umbra exampleLevel ! 1)
            \<and> 0 < umbra exampleLevel ! 1 ! 0)"
    by (simp add: TILES_X_def TILES_Y_def exampleLevel_def)
  note t = empty_cells_never_collide
    [of "[ShiftPressed, Update 200, ShiftPressed, Apply]" exampleLevel 0]
  from t a have "index (tiles (luminaLayer (dm ?g)) ! 0 ! 1) = -1
      \<and> \<not> collides (tiles (luminaLayer (dm ?g)) ! 0 ! 1)"
    by blast
  moreover from t b have "\<not> collides (tiles (umbraLayer (dm ?g)) ! 1 ! 0)"
    by blast
  moreover have "lumina exampleLevel ! 0 ! 1 = 0" "umbra exampleLevel ! 1 ! 0 = -1"
    by (simp_all add: exampleLevel_def)
  ultimately show ?thesis by simp
qed

lemma init_new_simps:
  "dm (init L U cb (newDimensionManager t0 w)) =
     \<lparr>current = LUMINA, luminaLayer = activateLayer L, umbraLayer = ghostLayer UMBRA_TINT U,
      isShifting = False\<rparr>"
  "world (init L U cb (newDimensionManager t0 w)) = w"
  "timers (init L U cb (newDimensionManager t0 w)) = []"
  "now (init L U cb (newDimensionManager t0 w)) = t0"
  "onShiftCallback (init L U cb (newDimensionManager t0 w)) = Some cb"
  by (simp_all add: init_eq newDimensionManager_def applyDimensionState_LUMINA)

text \<open>
  Claim C10. \<open>init\<close> on a new manager applies the state for the default dimension
  \<open>LUMINA\<close>: the Lumina layer is the active one, with alpha 1, neutral tint, collision on
  its occupied cells and depth 1; the Umbra layer has alpha 0.2, the tint \<open>0x6644cc\<close>, no
  collision and depth 0. \<open>init\<close> calls no callback and schedules nothing. The scene's
  manager is made this way, and in every state the scene reaches afterwards the layers
  are in applied form.
\<close>

theorem init_applies_default:
  "(let g = init L U cb (newDimensionManager t0 w) in
      getCurrent (dm g) = LUMINA
    \<and> \<not> getIsShifting (dm g)
    \<and> getActiveLayer (dm g) = luminaLayer (dm g)
    \<and> alpha (luminaLayer (dm g)) = 1
    \<and> (\<forall>t \<in> set (allTiles (luminaLayer (dm g))).
          tint t = 0xffffff \<and> (occupied t \<longrightarrow> collides t))
    \<and> depth (luminaLayer (dm g)) = 1
    \<and> alpha (umbraLayer (dm g)) = 0.2
    \<and> (\<forall>t \<in> set (allTiles (umbraLayer (dm g))). tint t = 0x6644cc \<and> \<not> collides t)
    \<and> depth (umbraLayer (dm g)) = 0
    \<and> map (map index) (tiles (luminaLayer (dm g))) = map (map index) (tiles L)
    \<and> map (map index) (tiles (umbraLayer (dm g))) = map (map index) (tiles U)
    \<and> world g = w \<and> timers g = [])
   \<and> dm (create level t0) =
       dm (init (fst (createTilemap level)) (snd (createTilemap level))
            GameScene_onDimensionShift
            (newDimensionManager t0 \<lparr>enemies = [], activeCollider = None\<rparr>))
   \<and> (\<forall>evs. applyDimensionState (dm (run evs (create level t0)))
         = dm (run evs (create level t0)))"
proof -
  have "dm (create level t0) =
       dm (init (fst (createTilemap level)) (snd (createTilemap level))
            GameScene_onDimensionShift
            (newDimensionManager t0 \<lparr>enemies = [], activeCollider = None\<rparr>))"
    by (simp add: create_simps init_new_simps applyDimensionState_LUMINA)
  moreover have "\<forall>evs. applyDimensionState (dm (run evs (create level t0)))
         = dm (run evs (create level t0))"
    using reachable_inv by blast
  moreover have "\<forall>t \<in> set (allTiles (activateLayer L)).
      tint t = 0xffffff \<and> (occupied t \<longrightarrow> collides t)"
    using activateLayer_tile by blast
  moreover have "\<forall>t \<in> set (allTiles (ghostLayer UMBRA_TINT U)).
      tint t = 0x6644cc \<and> \<not> collides t"
    using ghostLayer_tile [of _ UMBRA_TINT U] by (simp add: UMBRA_TINT_def)
  ultimately show ?thesis
    by (simp add: Let_def init_new_simps getCurrent_def getIsShifting_def getActiveLayer_def
        activateLayer_simps(1,2) ghostLayer_simps(1,2) activateLayer_index ghostLayer_index
        GHOST_ALPHA_def)
qed

theorem init_applies_default_witness:
  "tiles (luminaLayer (dm exampleGame))
     = [[solidTile\<lparr>tint := 0xffffff, collides := True\<rparr>, blankTile]]
   \<and> occupied (solidTile\<lparr>tint := 0xffffff, collides := True\<rparr>)
   \<and> tiles (umbraLayer (dm exampleGame))
     = [[blankTile\<lparr>tint := 0x6644cc\<rparr>, solidTile\<lparr>tint := 0x6644cc, collides := False\<rparr>]]
   \<and> alpha (umbraLayer (dm exampleGame)) = 0.2
   \<and> world exampleGame = []"
  using init_applies_default [where L = exampleLayerA and U = exampleLayerB and cb = recorder
      and ?t0.0 = 0 and w = "[]" and level = exampleLevel]
  by (simp add: exampleGame_def init_new_simps activateLayer_simps ghostLayer_simps
      exampleLayerA_def exampleLayerB_def solidTile_def blankTile_def occupied_def
      UMBRA_TINT_def GHOST_ALPHA_def)

section \<open>Round trip\<close>

lemma activate_ghost:
  assumes "\<forall>t \<in> set (allTiles L). index t \<le> 0 \<longrightarrow> \<not> collides t"
  shows "activateLayer (ghostLayer c L) = activateLayer L"
proof (rule TilemapLayer.equality)
  have "\<And>row t. row \<in> set (tiles L) \<Longrightarrow> t \<in> set row \<Longrightarrow> index t \<le> 0 \<Longrightarrow> \<not> collides t"
    using assms by (auto simp: allTiles_def)
  then show "tiles (activateLayer (ghostLayer c L)) = tiles (activateLayer L)"
    by (auto simp: activateLayer_simps ghostLayer_simps)
qed (simp_all add: activateLayer_simps ghostLayer_simps)

lemma ghost_activate: "ghostLayer c (activateLayer L) = ghostLayer c L"
  by (rule TilemapLayer.equality) (simp_all add: activateLayer_simps ghostLayer_simps comp_def)

lemma clockUpdate_dm:
  "current (dm (clockUpdate delta g)) = current (dm g)"
  "luminaLayer (dm (clockUpdate delta g)) = luminaLayer (dm g)"
  "umbraLayer (dm (clockUpdate delta g)) = umbraLayer (dm g)"
  by (simp_all add: clockUpdate_eq)

lemma fold_clockUpdate_dm:
  "current (dm (fold clockUpdate ds g)) = current (dm g)
   \<and> luminaLayer (dm (fold clockUpdate ds g)) = luminaLayer (dm g)
   \<and> umbraLayer (dm (fold clockUpdate ds g)) = umbraLayer (dm g)"
  by (induction ds arbitrary: g) (simp_all add: clockUpdate_dm)

lemma two_shifts_restore_layers:
  assumes inv: "applyDimensionState (dm g) = dm g"
    and clean: "\<forall>t \<in> set (allTiles (luminaLayer (dm g))). index t \<le> 0 \<longrightarrow> \<not> collides t"
    and cur: "current (dm g) = LUMINA"
    and free: "\<not> isShifting (dm g)" "\<not> isShifting (dm (fold clockUpdate ds (shift g)))"
  shows "current (dm (shift g)) = UMBRA
     \<and> current (dm (shift (fold clockUpdate ds (shift g)))) = LUMINA
     \<and> luminaLayer (dm (shift (fold clockUpdate ds (shift g)))) = luminaLayer (dm g)
     \<and> umbraLayer (dm (shift (fold clockUpdate ds (shift g)))) = umbraLayer (dm g)"
proof -
  let ?h = "fold clockUpdate ds (shift g)"
  have "luminaLayer (applyDimensionState (dm g)) = activateLayer (luminaLayer (dm g))"
    "umbraLayer (applyDimensionState (dm g)) = ghostLayer UMBRA_TINT (umbraLayer (dm g))"
    using cur by (simp_all add: applyDimensionState_LUMINA)
  with inv have fp: "activateLayer (luminaLayer (dm g)) = luminaLayer (dm g)"
    "ghostLayer UMBRA_TINT (umbraLayer (dm g)) = umbraLayer (dm g)"
    by simp_all
  have s1: "current (dm (shift g)) = UMBRA"
    "luminaLayer (dm (shift g)) = ghostLayer LUMINA_TINT (luminaLayer (dm g))"
    "umbraLayer (dm (shift g)) = activateLayer (umbraLayer (dm g))"
    using cur free(1) by (simp_all add: shift_accepted toggled_def applyDimensionState_UMBRA)
  have h: "current (dm ?h) = UMBRA"
    "luminaLayer (dm ?h) = ghostLayer LUMINA_TINT (luminaLayer (dm g))"
    "umbraLayer (dm ?h) = activateLayer (umbraLayer (dm g))"
    using fold_clockUpdate_dm [of ds "shift g"] s1 by simp_all
  have "dm (shift ?h) = toggled (dm ?h)"
    using free(2) by (simp add: shift_accepted)
  then have "current (dm (shift ?h)) = LUMINA"
    "luminaLayer (dm (shift ?h)) = activateLayer (ghostLayer LUMINA_TINT (luminaLayer (dm g)))"
    "umbraLayer (dm (shift ?h)) = ghostLayer UMBRA_TINT (activateLayer (umbraLayer (dm g)))"
    using h by (simp_all add: toggled_def applyDimensionState_LUMINA)
  then show ?thesis
    using s1(1) fp by (simp add: activate_ghost [OF clean] ghost_activate)
qed

text \<open>
  Claim C6. From a state of the scene in which Lumina is active and no lock is held, a
  shift, any clock updates after which the lock is released, and a second shift bring the
  active dimension back to Lumina and leave both layers (tiles with their tint and
  collision flag, alpha, depth) equal to what they were before the first shift.
\<close>

theorem round_trip:
  assumes "g = run evs (create level t0)"
    and "getCurrent (dm g) = LUMINA"
    and "\<not> getIsShifting (dm g)"
    and "\<not> getIsShifting (dm (fold clockUpdate ds (shift g)))"
  shows "getCurrent (dm (shift g)) = UMBRA
     \<and> getCurrent (dm (shift (fold clockUpdate ds (shift g)))) = LUMINA
     \<and> luminaLayer (dm (shift (fold clockUpdate ds (shift g)))) = luminaLayer (dm g)
     \<and> umbraLayer (dm (shift (fold clockUpdate ds (shift g)))) = umbraLayer (dm g)"
proof -
  have inv: "applyDimensionState (dm g) = dm g"
    and ok: "layerOK (lumina level) (luminaLayer (dm g))"
    using reachable_inv [of level evs t0] assms(1) by simp_all
  have clean: "\<forall>t \<in> set (allTiles (luminaLayer (dm g))). index t \<le> 0 \<longrightarrow> \<not> collides t"
    using layerOK_tile [OF ok] by blast
  show ?thesis
    using two_shifts_restore_layers [OF inv clean, of ds] assms(2-4)
    by (simp add: getCurrent_def getIsShifting_def)
qed

theorem round_trip_witness:
  "getCurrent (dm (create exampleLevel 0)) = LUMINA
   \<and> \<not> getIsShifting (dm (create exampleLevel 0))
   \<and> \<not> getIsShifting (dm (fold clockUpdate [100, 150] (shift (create exampleLevel 0))))
   \<and> getCurrent (dm (shift (create exampleLevel 0))) = UMBRA
   \<and> getCurrent (dm (shift (fold clockUpdate [100, 150] (shift (create exampleLevel 0)))))
       = LUMINA
   \<and> luminaLayer (dm (shift (fold clockUpdate [100, 150] (shift (create exampleLevel 0)))))
       = luminaLayer (dm (create exampleLevel 0))
   \<and> umbraLayer (dm (shift (fold clockUpdate [100, 150] (shift (create exampleLevel 0)))))
       = umbraLayer (dm (create exampleLevel 0))"
proof -
  let ?g = "create exampleLevel 0"
  have a: "?g = run [] ?g" by simp
  have b: "getCurrent (dm ?g) = LUMINA" "\<not> getIsShifting (dm ?g)"
    by (simp_all add: getCurrent_def getIsShifting_def)
  have c: "\<not> getIsShifting (dm (fold clockUpdate [100, 150] (shift ?g)))"
    by (simp add: getIsShifting_def shift_accepted clockUpdate_eq create_simps
        SHIFT_DURATION_MS_def)
  from round_trip [OF a b c] b c show ?thesis by simp
qed

section \<open>The transition lock\<close>

lemma step_lock_inv:
  assumes "if isShifting (dm g)
           then \<exists>due. timers g = [due] \<and> now g < due \<and> due \<le> now g + SHIFT_DURATION_MS
           else timers g = []"
  shows "if isShifting (dm (step ev g))
         then \<exists>due. timers (step ev g) = [due] \<and> now (step ev g) < due
                \<and> due \<le> now (step ev g) + SHIFT_DURATION_MS
         else timers (step ev g) = []"
proof (cases ev)
  case ShiftPressed
  show ?thesis
  proof (cases "isShifting (dm g)")
    case True
    with assms ShiftPressed show ?thesis by (simp add: shift_locked)
  next
    case False
    with assms ShiftPressed show ?thesis
      by (simp add: shift_accepted SHIFT_DURATION_MS_def)
  qed
next
  case (Update delta)
  with assms show ?thesis
    by (cases "isShifting (dm g)") (auto simp: clockUpdate_eq)
next
  case Apply
  with assms show ?thesis by simp
qed

lemma run_lock_inv:
  assumes "if isShifting (dm g)
           then \<exists>due. timers g = [due] \<and> now g < due \<and> due \<le> now g + SHIFT_DURATION_MS
           else timers g = []"
  shows "if isShifting (dm (run evs g))
         then \<exists>due. timers (run evs g) = [due] \<and> now (run evs g) < due
                \<and> due \<le> now (run evs g) + SHIFT_DURATION_MS
         else timers (run evs g) = []"
  using assms
proof (induction evs arbitrary: g)
  case Nil
  then show ?case by simp
next
  case (Cons ev evs)
  from step_lock_inv [OF Cons.prems, of ev] show ?case
    by (simp only: run_simps) (rule Cons.IH)
qed

lemma reachable_lock:
  "(isShifting (dm (run evs (create level t0))) \<longrightarrow>
      \<not> isShifting (dm (clockUpdate SHIFT_DURATION_MS (run evs (create level t0)))))
   \<and> (\<not> isShifting (dm (run evs (create level t0))) \<longrightarrow>
      timers (run evs (create level t0)) = [])"
proof -
  let ?g = "run evs (create level t0)"
  have "if isShifting (dm ?g)
        then \<exists>due. timers ?g = [due] \<and> now ?g < due \<and> due \<le> now ?g + SHIFT_DURATION_MS
        else timers ?g = []"
    by (rule run_lock_inv) (simp add: create_simps)
  then show ?thesis
    by (cases "isShifting (dm ?g)") (auto simp: clockUpdate_eq)
qed

text \<open>
  Claim C1. A \<open>shift\<close> called while the lock is held returns the state it was given:
  dimension, layers, pending timer and callback state are the same, nothing is queued and
  there is no error value. After an accepted shift, every sequence of events that spans
  less than \<open>SHIFT_DURATION_MS = 200\<close> milliseconds (further shift requests included)
  leaves everything but the clock as the accepted shift left it; once 200 milliseconds
  have passed, the next shift flips the dimension again. In particular a shift at
  \<open>t = 0\<close> is accepted, one at \<open>t = 150\<close> changes nothing and one at \<open>t = 250\<close> flips the
  dimension. In every state a scene reaches, a held lock is released by a clock update of
  200 milliseconds, and no timer is pending when no lock is held.
\<close>

theorem shift_cooldown:
  "(getIsShifting (dm g) \<longrightarrow> shift g = g)
   \<and> (getIsShifting (dm (run evs0 (create level t0))) \<longrightarrow>
        \<not> getIsShifting (dm (clockUpdate SHIFT_DURATION_MS (run evs0 (create level t0)))))
   \<and> (\<not> getIsShifting (dm (run evs0 (create level t0))) \<longrightarrow>
        timers (run evs0 (create level t0)) = [])
   \<and> (\<not> getIsShifting (dm g) \<and> timers g = [] \<longrightarrow>
        getCurrent (dm (shift g)) \<noteq> getCurrent (dm g)
      \<and> (\<forall>evs. elapsed evs < SHIFT_DURATION_MS \<longrightarrow>
            run evs (shift g) = (shift g)\<lparr>now := now g + elapsed evs\<rparr>
          \<and> (\<forall>delta. SHIFT_DURATION_MS \<le> elapsed evs + delta \<longrightarrow>
                getCurrent (dm (run (evs @ [Update delta, ShiftPressed]) (shift g)))
                  = getCurrent (dm g)))
      \<and> getCurrent (dm (run [ShiftPressed, Update 150, ShiftPressed] g))
          = getCurrent (dm (run [ShiftPressed] g))
      \<and> getCurrent (dm (run [ShiftPressed, Update 150, ShiftPressed, Update 100, ShiftPressed] g))
          = getCurrent (dm g))"
proof (intro conjI impI allI)
  assume "getIsShifting (dm g)"
  then show "shift g = g" by (simp add: getIsShifting_def shift_locked)
next
  assume "getIsShifting (dm (run evs0 (create level t0)))"
  then show "\<not> getIsShifting (dm (clockUpdate SHIFT_DURATION_MS (run evs0 (create level t0))))"
    using reachable_lock [of evs0 level t0] by (simp add: getIsShifting_def)
next
  assume "\<not> getIsShifting (dm (run evs0 (create level t0)))"
  then show "timers (run evs0 (create level t0)) = []"
    using reachable_lock [of evs0 level t0] by (simp add: getIsShifting_def)
next
  assume h: "\<not> getIsShifting (dm g) \<and> timers g = []"
  then show "getCurrent (dm (shift g)) \<noteq> getCurrent (dm g)"
    by (simp add: getIsShifting_def getCurrent_def shift_accepted)
next
  fix evs
  assume "\<not> getIsShifting (dm g) \<and> timers g = []" "elapsed evs < SHIFT_DURATION_MS"
  then show "run evs (shift g) = (shift g)\<lparr>now := now g + elapsed evs\<rparr>"
    by (simp add: getIsShifting_def shift_then_locked)
next
  fix evs delta
  assume "\<not> getIsShifting (dm g) \<and> timers g = []" "elapsed evs < SHIFT_DURATION_MS"
    "SHIFT_DURATION_MS \<le> elapsed evs + delta"
  then show "getCurrent (dm (run (evs @ [Update delta, ShiftPressed]) (shift g)))
      = getCurrent (dm g)"
    unfolding getCurrent_def getIsShifting_def by (intro shift_after_lock) simp_all
next
  assume h: "\<not> getIsShifting (dm g) \<and> timers g = []"
  have "run [Update 150, ShiftPressed] (shift g) = (shift g)\<lparr>now := now g + 150\<rparr>"
    using h shift_then_locked [of g "[Update 150, ShiftPressed]"]
    by (simp add: getIsShifting_def SHIFT_DURATION_MS_def)
  then show "getCurrent (dm (run [ShiftPressed, Update 150, ShiftPressed] g))
      = getCurrent (dm (run [ShiftPressed] g))"
    by simp
next
  assume h: "\<not> getIsShifting (dm g) \<and> timers g = []"
  show "getCurrent (dm (run [ShiftPressed, Update 150, ShiftPressed, Update 100, ShiftPressed] g))
      = getCurrent (dm g)"
    using h shift_after_lock [of g "[Update 150, ShiftPressed]" 100]
    by (simp add: getIsShifting_def getCurrent_def SHIFT_DURATION_MS_def)
qed

theorem shift_cooldown_witness:
  "\<not> getIsShifting (dm exampleGame) \<and> timers exampleGame = []
   \<and> getCurrent (dm exampleGame) = LUMINA
   \<and> getCurrent (dm (run [ShiftPressed] exampleGame)) = UMBRA
   \<and> getCurrent (dm (run [ShiftPressed, Update 150, ShiftPressed] exampleGame)) = UMBRA
   \<and> getCurrent (dm (run [ShiftPressed, Update 150, ShiftPressed, Update 100, ShiftPressed]
         exampleGame)) = LUMINA
   \<and> getIsShifting (dm (shift exampleGame))
   \<and> shift (shift exampleGame) = shift exampleGame"
  using shift_cooldown [where g = exampleGame] shift_cooldown [where g = "shift exampleGame"]
  by (simp add: exampleGame_simps getIsShifting_def getCurrent_def shift_accepted)

end
